theory Spec2Isabelle
  imports Complex_Main "HOL-Library.Word"
begin

section \<open>Audio data and observable effects\<close>

text \<open>
  A sample is one float32 value of a PyAudio buffer. The manual recorder never computes
  with samples (it stores, concatenates and hands them over), so a sample is kept as
  its 32-bit pattern. A frame is one \<^verbatim>\<open>np.ndarray\<close> produced by one device read.
\<close>

type_synonym sample = "32 word"
type_synonym frame = "sample list"

text \<open>
  What the recorders do to the outside world is kept in a trace, oldest effect first:
  log records, the start of the capture thread, and the two ways a lifecycle callback is
  run. \<open>Invoke\<close> is a plain call \<^verbatim>\<open>self.on_recording_stop(combined_audio)\<close> on the calling
  thread; \<open>Dispatch\<close> is \<^verbatim>\<open>threading.Thread(target=cb, args=..., daemon=True).start()\<close>.
  \<open>LogRecordingComplete n d\<close> is the info record that carries a sample count and a
  duration ("Recording complete: n samples (d s)" of the manual recorder, "Recording
  stopped - captured n samples (d s)" of the voice-activated one); the other log records
  carry the fixed part of their message.
\<close>

datatype callback_call = OnRecordingStart | OnRecordingStop frame

datatype effect =
    LogInfo string
  | LogWarning string
  | LogError string
  | LogRecordingComplete nat real
  | ThreadStart nat
  | Invoke callback_call
  | Dispatch callback_call

text \<open>A caller-supplied callable either returns or raises when it is called.\<close>

datatype callable = Returns | Raises

section \<open>ManualAudioRecorder\<close>

text \<open>
  A capture thread runs \<^verbatim>\<open>_recording_worker\<close>. It blocks in two places only: in
  \<^verbatim>\<open>pyaudio.open\<close> and in \<^verbatim>\<open>stream.read\<close>; the loop test between two reads does not
  block. The program point of a thread is therefore the call it is blocked in, or
  \<open>Exited\<close>. The device answers a blocked call with an outcome: the stream was opened;
  the read returned bytes that \<^verbatim>\<open>np.frombuffer\<close> turned into a frame (\<open>Chunk\<close>); the
  read returned bytes that only the \<^verbatim>\<open>struct\<close> fallback turned into a frame
  (\<open>Converted\<close>); the read returned bytes that neither conversion accepts
  (\<open>Unconvertible\<close>); or the call raised.
\<close>

datatype pc = Opening | Reading | Exited

datatype outcome = Opened | Chunk frame | Converted frame | Unconvertible | Raised

text \<open>
  The fields of the Python object, then two fields of the model: the capture threads
  started so far with their program points (\<open>recording_thread\<close> is an index into
  them, as the attribute is a reference to the latest \<^verbatim>\<open>Thread\<close>), and the trace.
\<close>

record recorder =
  debug_mode :: bool
  sample_rate :: int
  chunk_size :: int
  channels :: int
  device_index :: "int option"
  is_recording :: bool
  audio_buffer :: "frame list"
  recording_thread :: "nat option"
  stop_recording_event :: bool
  pyaudio :: bool
  stream :: "nat option"
  on_recording_start :: "callable option"
  on_recording_stop :: "callable option"
  threads :: "pc list"
  trace :: "effect list"

definition emit :: "effect list \<Rightarrow> recorder \<Rightarrow> recorder" where
  "emit es s = s\<lparr>trace := trace s @ es\<rparr>"

subsection \<open>Construction\<close>

record config =
  cfg_sample_rate :: int
  cfg_chunk_size :: int
  cfg_channels :: int
  cfg_device_index :: "int option"

datatype init_error = PyAudioError

text \<open>
  \<^verbatim>\<open>_initialize_audio\<close>. The platform is two parameters: whether \<^verbatim>\<open>pyaudio.PyAudio()\<close>
  succeeds, and what \<^verbatim>\<open>get_device_count()\<close> returns. An exception is logged and raised
  again; the listing of devices at debug level changes nothing and is left out.
\<close>

definition initialize_audio :: "bool \<Rightarrow> int \<Rightarrow> recorder \<Rightarrow> init_error + recorder" where
  "initialize_audio pyaudio_ok device_count s =
     (if \<not> pyaudio_ok then Inl PyAudioError
      else
        let s1 = emit (if debug_mode s then [LogInfo ''PyAudio initialized successfully''] else [])
                   (s\<lparr>pyaudio := True\<rparr>)
        in (case device_index s1 of
              None \<Rightarrow> Inr s1
            | Some i \<Rightarrow>
                if i \<ge> device_count
                then Inr (emit [LogWarning ''Device index out of range, using default'']
                            s1\<lparr>device_index := None\<rparr>)
                else Inr s1))"

definition ManualAudioRecorder ::
  "config \<Rightarrow> bool \<Rightarrow> bool \<Rightarrow> int \<Rightarrow> init_error + recorder" where
  "ManualAudioRecorder cfg debug pyaudio_ok device_count =
     initialize_audio pyaudio_ok device_count
       \<lparr>debug_mode = debug,
        sample_rate = cfg_sample_rate cfg,
        chunk_size = cfg_chunk_size cfg,
        channels = cfg_channels cfg,
        device_index = cfg_device_index cfg,
        is_recording = False,
        audio_buffer = [],
        recording_thread = None,
        stop_recording_event = False,
        pyaudio = False,
        stream = None,
        on_recording_start = None,
        on_recording_stop = None,
        threads = [],
        trace = []\<rparr>"

subsection \<open>The capture thread\<close>

text \<open>
  The \<^verbatim>\<open>finally\<close> block of \<^verbatim>\<open>_recording_worker\<close>: the stream, if any, is stopped and
  closed and the attribute reset; then the thread ends. (An exception of the closing
  itself is only logged there; the device outcomes of this development have no such case.)
\<close>

definition worker_exit :: "nat \<Rightarrow> recorder \<Rightarrow> recorder" where
  "worker_exit t s = s\<lparr>stream := None, threads := (threads s)[t := Exited]\<rparr>"

text \<open>
  The loop head \<^verbatim>\<open>while not self.stop_recording_event.is_set()\<close> and the entry into the
  next read. With the event set the loop is left. Otherwise \<^verbatim>\<open>self.stream.read\<close> looks
  the stream up in the attribute that all capture threads share: when the
  \<^verbatim>\<open>finally\<close> block of another thread has reset it to None the call raises
  AttributeError at once, which the handler of the loop body logs (no stop was asked)
  before it breaks; with a stream stored the thread blocks in the read.
\<close>

definition loop_test :: "nat \<Rightarrow> recorder \<Rightarrow> recorder" where
  "loop_test t s =
     (if stop_recording_event s then worker_exit t s
      else if stream s = None
      then worker_exit t (emit [LogError ''Error reading audio data''] s)
      else s\<lparr>threads := (threads s)[t := Reading]\<rparr>)"

text \<open>
  One blocked call of thread \<open>t\<close> returns with outcome \<open>oc\<close>. In \<open>Opening\<close> every
  outcome but \<open>Opened\<close> is an exception of \<^verbatim>\<open>pyaudio.open\<close> (the outer handler). In
  \<open>Reading\<close> a frame is appended, after the warning of line 146 when it took the
  fallback conversion; bytes that the fallback rejects too give that warning and then
  the exception of the fallback, which like an exception of the read reaches the
  handler of the loop body (it logs only when no stop was asked, and breaks). \<open>Opened\<close>
  does not answer a read and is taken as an exception of it.
\<close>

definition worker_step :: "nat \<Rightarrow> outcome \<Rightarrow> recorder \<Rightarrow> recorder" where
  "worker_step t oc s =
     (if t < length (threads s) then
        (case threads s ! t of
           Exited \<Rightarrow> s
         | Opening \<Rightarrow>
             (case oc of
                Opened \<Rightarrow>
                  loop_test t
                    (emit (if debug_mode s
                           then [LogInfo ''Audio stream opened, starting recording...'']
                           else [])
                       (s\<lparr>stream := Some t\<rparr>))
              | _ \<Rightarrow> worker_exit t (emit [LogError ''Error in recording worker''] s))
         | Reading \<Rightarrow>
             (case oc of
                Chunk f \<Rightarrow> loop_test t (s\<lparr>audio_buffer := audio_buffer s @ [f]\<rparr>)
              | Converted f \<Rightarrow>
                  loop_test t
                    (emit [LogWarning ''Buffer conversion issue, using fallback'']
                       (s\<lparr>audio_buffer := audio_buffer s @ [f]\<rparr>))
              | Unconvertible \<Rightarrow>
                  worker_exit t
                    (emit ([LogWarning ''Buffer conversion issue, using fallback'']
                           @ (if \<not> stop_recording_event s
                              then [LogError ''Error reading audio data'']
                              else []))
                       s)
              | _ \<Rightarrow>
                  worker_exit t
                    (emit (if \<not> stop_recording_event s
                           then [LogError ''Error reading audio data'']
                           else [])
                       s)))
      else s)"

text \<open>
  \<^verbatim>\<open>_recording_worker\<close> of thread \<open>t\<close> against the outcomes the device delivers, in
  order. When they run out the thread stays blocked where it is.
\<close>

fun recording_worker :: "nat \<Rightarrow> recorder \<Rightarrow> outcome list \<Rightarrow> recorder" where
  "recording_worker t s [] = s"
| "recording_worker t s (oc # ocs) = recording_worker t (worker_step t oc s) ocs"

subsection \<open>The controller\<close>

text \<open>
  \<^verbatim>\<open>self.recording_thread.join(timeout=2.0)\<close>: the caller waits while the joined thread
  runs. \<open>ocs\<close> are the outcomes the device delivers to that thread within the timeout;
  a thread still blocked when they run out is left alive (the join timed out).
\<close>

definition join_thread :: "outcome list \<Rightarrow> recorder \<Rightarrow> recorder" where
  "join_thread ocs s =
     (case recording_thread s of
        None \<Rightarrow> s
      | Some t \<Rightarrow> recording_worker t s ocs)"

text \<open>Running a callback inside \<^verbatim>\<open>try\<close>/\<^verbatim>\<open>except\<close>: a call, and a log record if it raises.\<close>

definition run_callback :: "callable option \<Rightarrow> callback_call \<Rightarrow> string \<Rightarrow> effect list" where
  "run_callback cb c msg =
     (case cb of
        None \<Rightarrow> []
      | Some Returns \<Rightarrow> [Invoke c]
      | Some Raises \<Rightarrow> [Invoke c, LogError msg])"

definition start_recording :: "recorder \<Rightarrow> bool \<times> recorder" where
  "start_recording s =
     (if is_recording s then (False, emit [LogWarning ''Already recording''] s)
      else
        let s1 = emit (if debug_mode s then [LogInfo ''Starting manual recording...''] else []) s;
            s2 = s1\<lparr>audio_buffer := [], stop_recording_event := False, is_recording := True\<rparr>;
            t = length (threads s2);
            s3 = emit [ThreadStart t]
                   (s2\<lparr>recording_thread := Some t, threads := threads s2 @ [Opening]\<rparr>);
            s4 = emit (run_callback (on_recording_start s3) OnRecordingStart
                         ''Error in recording start callback'') s3
        in (True, s4))"

text \<open>
  Lines 214 to 219 of \<^verbatim>\<open>stop_recording\<close>, the same as lines 255 to 260 of
  \<^verbatim>\<open>cancel_recording\<close>: signal the stop, leave the recording state, wait for the thread.
\<close>

definition signal_stop_and_wait :: "outcome list \<Rightarrow> recorder \<Rightarrow> recorder" where
  "signal_stop_and_wait ocs s =
     join_thread ocs (s\<lparr>stop_recording_event := True, is_recording := False\<rparr>)"

text \<open>
  The state in which \<^verbatim>\<open>stop_recording\<close> looks at the buffer: after the debug record, the
  stop signal and the join.
\<close>

definition after_join :: "recorder \<Rightarrow> outcome list \<Rightarrow> recorder" where
  "after_join s ocs =
     signal_stop_and_wait ocs
       (emit (if debug_mode s then [LogInfo ''Stopping manual recording...''] else []) s)"

text \<open>
  Lines 221 to 246, "Process collected audio". \<^verbatim>\<open>np.concatenate\<close> of a non-empty list of
  one-dimensional arrays is their concatenation. \<^verbatim>\<open>len(combined_audio) / self.sample_rate\<close>
  raises ZeroDivisionError for a zero rate; the handler around the processing logs it and
  returns False.
\<close>

definition process_collected_audio :: "recorder \<Rightarrow> bool \<times> recorder" where
  "process_collected_audio s2 =
     (if audio_buffer s2 \<noteq> [] then
        let combined_audio = concat (audio_buffer s2)
        in if sample_rate s2 = 0
           then (False, emit [LogError ''Error processing recorded audio''] s2)
           else
             let duration = real (length combined_audio) / real_of_int (sample_rate s2);
                 s3 = emit (if debug_mode s2
                            then [LogRecordingComplete (length combined_audio) duration]
                            else []) s2;
                 s4 = emit (run_callback (on_recording_stop s3)
                              (OnRecordingStop combined_audio)
                              ''Error in recording stop callback'') s3
             in (True, s4)
      else (False, emit [LogWarning ''No audio data recorded''] s2))"

definition stop_recording :: "recorder \<Rightarrow> outcome list \<Rightarrow> bool \<times> recorder" where
  "stop_recording s ocs =
     (if \<not> is_recording s then (False, emit [LogWarning ''Not currently recording''] s)
      else process_collected_audio (after_join s ocs))"

definition cancel_recording :: "recorder \<Rightarrow> outcome list \<Rightarrow> recorder" where
  "cancel_recording s ocs =
     (if \<not> is_recording s then s
      else
        let s1 = emit [LogInfo ''Cancelling recording...''] s;
            s2 = signal_stop_and_wait ocs s1
        in s2\<lparr>audio_buffer := []\<rparr>)"

subsection \<open>Observers and call sequences\<close>

text \<open>
  The waveforms handed to \<^verbatim>\<open>on_recording_stop\<close>, by call or by thread, in the order of
  the trace.
\<close>

fun utterance_of :: "effect \<Rightarrow> frame list" where
  "utterance_of (Invoke (OnRecordingStop w)) = [w]"
| "utterance_of (Dispatch (OnRecordingStop w)) = [w]"
| "utterance_of e = []"

definition utterances :: "effect list \<Rightarrow> frame list" where
  "utterances tr = concat (map utterance_of tr)"

text \<open>
  How many \<^verbatim>\<open>stream.read\<close> calls of thread \<open>t\<close> return (with data or with an exception)
  while the device delivers \<open>ocs\<close>.
\<close>

fun reads_returned :: "nat \<Rightarrow> recorder \<Rightarrow> outcome list \<Rightarrow> nat" where
  "reads_returned t s [] = 0"
| "reads_returned t s (oc # ocs) =
     (if t < length (threads s) \<and> threads s ! t = Reading then 1 else 0)
       + reads_returned t (worker_step t oc s) ocs"

text \<open>
  What can happen to a recorder: a call of its public methods by the controlling thread
  (a stop or a cancel with the outcomes delivered during its join), or the device
  delivering outcomes to capture thread \<open>t\<close> while no method runs. A call returns True,
  False, or nothing.
\<close>

datatype call = Start | Stop "outcome list" | Cancel "outcome list" | Deliver nat "outcome list"

fun perform :: "call \<Rightarrow> recorder \<Rightarrow> bool option \<times> recorder" where
  "perform Start s = (Some (fst (start_recording s)), snd (start_recording s))"
| "perform (Stop ocs) s = (Some (fst (stop_recording s ocs)), snd (stop_recording s ocs))"
| "perform (Cancel ocs) s = (None, cancel_recording s ocs)"
| "perform (Deliver t ocs) s = (None, recording_worker t s ocs)"

fun run_calls :: "call list \<Rightarrow> recorder \<Rightarrow> bool option list \<times> recorder" where
  "run_calls [] s = ([], s)"
| "run_calls (c # cs) s =
     (fst (perform c s) # fst (run_calls cs (snd (perform c s))),
      snd (run_calls cs (snd (perform c s))))"

text \<open>The frames among the outcomes of the device, in order.\<close>

fun chunks_of :: "outcome list \<Rightarrow> frame list" where
  "chunks_of [] = []"
| "chunks_of (Chunk f # ocs) = f # chunks_of ocs"
| "chunks_of (Converted f # ocs) = f # chunks_of ocs"
| "chunks_of (oc # ocs) = chunks_of ocs"

text \<open>
  The frames the device delivers to capture thread \<open>t\<close> in the course of a sequence of
  calls: what it delivers to \<open>t\<close> between calls, and what it delivers during the join
  of a stop or a cancel, which wait for the latest thread.
\<close>

fun outcomes_for :: "nat \<Rightarrow> call \<Rightarrow> outcome list" where
  "outcomes_for t Start = []"
| "outcomes_for t (Stop ocs) = ocs"
| "outcomes_for t (Cancel ocs) = ocs"
| "outcomes_for t (Deliver u ocs) = (if u = t then ocs else [])"

definition delivered_to :: "nat \<Rightarrow> call list \<Rightarrow> frame list" where
  "delivered_to t cs = chunks_of (concat (map (outcomes_for t) cs))"

subsection \<open>The recorder of the module's self-test\<close>

text \<open>
  The \<^verbatim>\<open>__main__\<close> block builds a recorder from this configuration and sets both
  callbacks to functions that print and return. \<open>main_recorder\<close> is that recorder on
  a platform with one device, before the first command.
\<close>

definition main_config :: config where
  "main_config =
     \<lparr>cfg_sample_rate = 16000, cfg_chunk_size = 1024, cfg_channels = 1,
      cfg_device_index = Some 0\<rparr>"

definition main_recorder :: recorder where
  "main_recorder =
     \<lparr>debug_mode = False,
      sample_rate = 16000,
      chunk_size = 1024,
      channels = 1,
      device_index = Some 0,
      is_recording = False,
      audio_buffer = [],
      recording_thread = None,
      stop_recording_event = False,
      pyaudio = True,
      stream = None,
      on_recording_start = Some Returns,
      on_recording_stop = Some Returns,
      threads = [],
      trace = []\<rparr>"

text \<open>
  The scenario of the specification: the same recorder in debug mode, started, its
  stream opened, and ten frames of 1024 samples captured.
\<close>

definition ten_frames :: "frame list" where
  "ten_frames = replicate 10 (replicate 1024 0)"

definition scenario_recorder :: recorder where
  "scenario_recorder =
     recording_worker 0 (snd (start_recording (main_recorder\<lparr>debug_mode := True\<rparr>)))
       (Opened # map Chunk ten_frames)"

text \<open>Five short frames, for the scenario of a device that fails after five reads.\<close>

definition five_frames :: "frame list" where
  "five_frames = [[1, 2], [3, 4], [5, 6], [7, 8], [9, 10]]"

text \<open>The self-test recorder in the middle of a session: started, five frames captured.\<close>

definition capturing_recorder :: recorder where
  "capturing_recorder =
     recording_worker 0 (snd (start_recording main_recorder)) (Opened # map Chunk five_frames)"

section \<open>AudioRecorder, the voice-activated recorder\<close>

text \<open>
  The part of \<^verbatim>\<open>src/audio_recorder.py\<close> that starts and ends a recording and runs the
  callbacks. The energy test that chooses between voice and silence is floating-point
  arithmetic of numpy and is not part of this development.
\<close>

record vad_recorder =
  v_sample_rate :: int
  v_device_index :: "int option"
  v_is_recording :: bool
  v_audio_data :: "frame list"
  v_silence_start_time :: "real option"
  v_pyaudio :: bool
  v_on_recording_start :: "callable option"
  v_on_recording_stop :: "callable option"
  v_trace :: "effect list"

definition v_emit :: "effect list \<Rightarrow> vad_recorder \<Rightarrow> vad_recorder" where
  "v_emit es v = v\<lparr>v_trace := v_trace v @ es\<rparr>"

datatype py_exception = ZeroDivisionError

text \<open>\<^verbatim>\<open>AudioRecorder._initialize_audio\<close>: as the manual recorder's, without the debug switch.\<close>

definition vad_initialize_audio :: "bool \<Rightarrow> int \<Rightarrow> vad_recorder \<Rightarrow> init_error + vad_recorder" where
  "vad_initialize_audio pyaudio_ok device_count v =
     (if \<not> pyaudio_ok then Inl PyAudioError
      else
        let v1 = v_emit [LogInfo ''PyAudio initialized successfully''] (v\<lparr>v_pyaudio := True\<rparr>)
        in (case v_device_index v1 of
              None \<Rightarrow> Inr v1
            | Some i \<Rightarrow>
                if i \<ge> device_count
                then Inr (v_emit [LogWarning ''Device index out of range, using default'']
                            v1\<lparr>v_device_index := None\<rparr>)
                else Inr v1))"

text \<open>
  \<^verbatim>\<open>_handle_voice_detected\<close>. The start callback is not called: a daemon thread is
  started with the callback as its target, so an exception of the callback ends that
  thread and reaches no handler of the recorder.
\<close>

definition handle_voice_detected :: "frame \<Rightarrow> vad_recorder \<Rightarrow> vad_recorder" where
  "handle_voice_detected audio_chunk v =
     (let v1 =
            (if \<not> v_is_recording v then
               v_emit ([LogInfo ''Voice detected - starting recording'']
                        @ (case v_on_recording_start v of
                             None \<Rightarrow> []
                           | Some cb \<Rightarrow> [Dispatch OnRecordingStart]))
                 (v\<lparr>v_is_recording := True, v_audio_data := []\<rparr>)
             else v)
      in v1\<lparr>v_audio_data := v_audio_data v1 @ [audio_chunk], v_silence_start_time := None\<rparr>)"

text \<open>
  \<^verbatim>\<open>_stop_recording_internal\<close>. The log record divides by the sample rate outside any
  handler: with a zero rate the exception leaves the method after the state was reset
  and the data cleared, before the callback thread is started.
\<close>

definition stop_recording_internal :: "vad_recorder \<Rightarrow> py_exception option \<times> vad_recorder" where
  "stop_recording_internal v =
     (if \<not> v_is_recording v then (None, v)
      else
        let v1 = v\<lparr>v_is_recording := False, v_silence_start_time := None\<rparr>
        in if v_audio_data v1 \<noteq> [] then
             let combined_audio = concat (v_audio_data v1);
                 v2 = v1\<lparr>v_audio_data := []\<rparr>
             in if v_sample_rate v2 = 0 then (Some ZeroDivisionError, v2)
                else
                  let v3 = v_emit [LogRecordingComplete (length combined_audio)
                                     (real (length combined_audio) / real_of_int (v_sample_rate v2))]
                             v2
                  in (None,
                      v_emit (case v_on_recording_stop v3 of
                                None \<Rightarrow> []
                              | Some cb \<Rightarrow> [Dispatch (OnRecordingStop combined_audio)])
                        v3)
           else (None, v_emit [LogWarning ''No audio data captured''] v1))"

text \<open>
  The recorder of the \<^verbatim>\<open>__main__\<close> block of \<^verbatim>\<open>src/audio_recorder.py\<close>: default device,
  both callbacks set, PyAudio initialised.
\<close>

definition vad_main_recorder :: vad_recorder where
  "vad_main_recorder =
     \<lparr>v_sample_rate = 16000,
      v_device_index = None,
      v_is_recording = False,
      v_audio_data = [],
      v_silence_start_time = None,
      v_pyaudio = True,
      v_on_recording_start = Some Returns,
      v_on_recording_stop = Some Returns,
      v_trace = [LogInfo ''PyAudio initialized successfully'']\<rparr>"

section \<open>Basic facts\<close>

text \<open>The self-test recorder is what the constructor builds, with the callbacks set.\<close>

lemma main_recorder_built:
  "ManualAudioRecorder main_config False True 1 =
     Inr (main_recorder\<lparr>on_recording_start := None, on_recording_stop := None\<rparr>)"
  by (simp add: ManualAudioRecorder_def initialize_audio_def emit_def main_config_def main_recorder_def)

lemma utterances_append: "utterances (a @ b) = utterances a @ utterances b"
  by (simp add: utterances_def)

lemma utterances_run_callback_start:
  "utterances (run_callback cb OnRecordingStart msg) = []"
proof (cases cb)
  case None
  then show ?thesis by (simp add: utterances_def run_callback_def)
next
  case (Some c)
  then show ?thesis by (cases c) (simp_all add: utterances_def run_callback_def)
qed

lemma utterances_run_callback_stop:
  "utterances (run_callback cb (OnRecordingStop w) msg) = (if cb = None then [] else [w])"
proof (cases cb)
  case None
  then show ?thesis by (simp add: utterances_def run_callback_def)
next
  case (Some c)
  then show ?thesis by (cases c) (simp_all add: utterances_def run_callback_def)
qed

lemma worker_step_fields:
  "is_recording (worker_step t oc s) = is_recording s \<and>
   sample_rate (worker_step t oc s) = sample_rate s \<and>
   debug_mode (worker_step t oc s) = debug_mode s \<and>
   on_recording_start (worker_step t oc s) = on_recording_start s \<and>
   on_recording_stop (worker_step t oc s) = on_recording_stop s \<and>
   stop_recording_event (worker_step t oc s) = stop_recording_event s \<and>
   recording_thread (worker_step t oc s) = recording_thread s \<and>
   length (threads (worker_step t oc s)) = length (threads s) \<and>
   utterances (trace (worker_step t oc s)) = utterances (trace s)"
  by (simp add: worker_step_def loop_test_def worker_exit_def emit_def utterances_def
           split: pc.split outcome.split)

lemma recording_worker_fields:
  "is_recording (recording_worker t s ocs) = is_recording s \<and>
   sample_rate (recording_worker t s ocs) = sample_rate s \<and>
   debug_mode (recording_worker t s ocs) = debug_mode s \<and>
   on_recording_start (recording_worker t s ocs) = on_recording_start s \<and>
   on_recording_stop (recording_worker t s ocs) = on_recording_stop s \<and>
   stop_recording_event (recording_worker t s ocs) = stop_recording_event s \<and>
   recording_thread (recording_worker t s ocs) = recording_thread s \<and>
   length (threads (recording_worker t s ocs)) = length (threads s) \<and>
   utterances (trace (recording_worker t s ocs)) = utterances (trace s)"
proof (induction ocs arbitrary: s)
  case Nil
  show ?case by simp
next
  case (Cons oc ocs)
  show ?case using Cons.IH [of "worker_step t oc s"] worker_step_fields [of t oc s] by simp
qed

lemma signal_stop_and_wait_fields:
  "is_recording (signal_stop_and_wait ocs s) = False \<and>
   sample_rate (signal_stop_and_wait ocs s) = sample_rate s \<and>
   debug_mode (signal_stop_and_wait ocs s) = debug_mode s \<and>
   on_recording_start (signal_stop_and_wait ocs s) = on_recording_start s \<and>
   on_recording_stop (signal_stop_and_wait ocs s) = on_recording_stop s \<and>
   stop_recording_event (signal_stop_and_wait ocs s) = True \<and>
   recording_thread (signal_stop_and_wait ocs s) = recording_thread s \<and>
   length (threads (signal_stop_and_wait ocs s)) = length (threads s) \<and>
   utterances (trace (signal_stop_and_wait ocs s)) = utterances (trace s)"
  using recording_worker_fields [of _ "s\<lparr>stop_recording_event := True, is_recording := False\<rparr>" ocs]
  by (simp add: signal_stop_and_wait_def join_thread_def split: option.split)

lemma after_join_fields:
  "is_recording (after_join s ocs) = False \<and>
   sample_rate (after_join s ocs) = sample_rate s \<and>
   debug_mode (after_join s ocs) = debug_mode s \<and>
   on_recording_start (after_join s ocs) = on_recording_start s \<and>
   on_recording_stop (after_join s ocs) = on_recording_stop s \<and>
   stop_recording_event (after_join s ocs) = True \<and>
   recording_thread (after_join s ocs) = recording_thread s \<and>
   length (threads (after_join s ocs)) = length (threads s) \<and>
   utterances (trace (after_join s ocs)) = utterances (trace s)"
  using signal_stop_and_wait_fields [of ocs "emit (if debug_mode s then [LogInfo ''Stopping manual recording...''] else []) s"]
  by (simp add: after_join_def emit_def utterances_def)

lemma recording_worker_exited:
  "t < length (threads s) \<Longrightarrow> threads s ! t = Exited \<Longrightarrow> recording_worker t s ocs = s"
  by (induction ocs) (simp_all add: worker_step_def)

lemma recording_worker_no_thread:
  "\<not> t < length (threads s) \<Longrightarrow> recording_worker t s ocs = s"
  by (induction ocs) (simp_all add: worker_step_def)

lemma recording_worker_append:
  "recording_worker t s (xs @ ys) = recording_worker t (recording_worker t s xs) ys"
  by (induction xs arbitrary: s) simp_all

lemma recording_worker_chunks:
  "t < length (threads s) \<Longrightarrow> threads s ! t = Reading \<Longrightarrow> \<not> stop_recording_event s \<Longrightarrow>
   stream s \<noteq> None \<Longrightarrow>
   recording_worker t s (map Chunk fs) = s\<lparr>audio_buffer := audio_buffer s @ fs\<rparr>"
proof (induction fs arbitrary: s)
  case Nil
  show ?case by simp
next
  case (Cons f fs)
  have step: "worker_step t (Chunk f) s = s\<lparr>audio_buffer := audio_buffer s @ [f]\<rparr>"
    using Cons.prems by (auto simp: worker_step_def loop_test_def list_update_same_conv)
  show ?case using Cons.prems Cons.IH [of "s\<lparr>audio_buffer := audio_buffer s @ [f]\<rparr>"]
    by (auto simp: step)
qed

lemma length_concat_uniform:
  "\<forall>f\<in>set fs. length f = n \<Longrightarrow> length (concat fs) = length fs * n"
  by (induction fs) simp_all

lemma utterances_simps:
  "utterances [] = []"
  "utterances (e # es) = utterance_of e @ utterances es"
  by (simp_all add: utterances_def)

lemma start_recording_idle:
  assumes "\<not> is_recording s"
  shows "fst (start_recording s) = True \<and>
         is_recording (snd (start_recording s)) \<and>
         audio_buffer (snd (start_recording s)) = [] \<and>
         \<not> stop_recording_event (snd (start_recording s)) \<and>
         threads (snd (start_recording s)) = threads s @ [Opening] \<and>
         recording_thread (snd (start_recording s)) = Some (length (threads s)) \<and>
         sample_rate (snd (start_recording s)) = sample_rate s \<and>
         debug_mode (snd (start_recording s)) = debug_mode s \<and>
         on_recording_stop (snd (start_recording s)) = on_recording_stop s \<and>
         utterances (trace (snd (start_recording s))) = utterances (trace s)"
  using assms
  by (simp add: start_recording_def emit_def Let_def utterances_append
        utterances_run_callback_start utterances_simps)

lemma worker_step_opened:
  assumes "t < length (threads s)" and "threads s ! t = Opening" and "\<not> stop_recording_event s"
  shows "threads (worker_step t Opened s) ! t = Reading \<and>
         audio_buffer (worker_step t Opened s) = audio_buffer s \<and>
         stream (worker_step t Opened s) = Some t"
  using assms by (simp add: worker_step_def loop_test_def emit_def)

lemma worker_step_raised:
  assumes "t < length (threads s)" and "threads s ! t = Reading"
  shows "threads (worker_step t Raised s) ! t = Exited \<and>
         audio_buffer (worker_step t Raised s) = audio_buffer s"
  using assms by (simp add: worker_step_def worker_exit_def emit_def)

lemma capture_until_fault:
  assumes "t < length (threads s)" and "threads s ! t = Opening" and "\<not> stop_recording_event s"
  shows "threads (recording_worker t s (Opened # map Chunk fs @ Raised # rest)) ! t = Exited \<and>
         audio_buffer (recording_worker t s (Opened # map Chunk fs @ Raised # rest))
           = audio_buffer s @ fs"
proof -
  let ?a = "worker_step t Opened s"
  have a: "t < length (threads ?a)" "threads ?a ! t = Reading" "\<not> stop_recording_event ?a"
      "audio_buffer ?a = audio_buffer s" "stream ?a \<noteq> None"
    using assms worker_step_opened [OF assms] worker_step_fields [of t Opened s] by simp_all
  let ?b = "recording_worker t ?a (map Chunk fs)"
  have b_eq: "?b = ?a\<lparr>audio_buffer := audio_buffer ?a @ fs\<rparr>"
    using a by (simp add: recording_worker_chunks)
  have b: "t < length (threads ?b)" "threads ?b ! t = Reading" "audio_buffer ?b = audio_buffer s @ fs"
    using a by (simp_all add: b_eq)
  let ?c = "worker_step t Raised ?b"
  have c: "t < length (threads ?c)" "threads ?c ! t = Exited" "audio_buffer ?c = audio_buffer s @ fs"
    using b worker_step_raised [of t ?b] worker_step_fields [of t Raised ?b] by simp_all
  have "recording_worker t s (Opened # map Chunk fs @ Raised # rest) = recording_worker t ?c rest"
    by (simp add: recording_worker_append)
  also have "\<dots> = ?c" using c by (simp add: recording_worker_exited)
  finally show ?thesis using c by simp
qed

lemma after_join_exited:
  assumes "recording_thread s = Some t" and "t < length (threads s)" and "threads s ! t = Exited"
  shows "audio_buffer (after_join s ocs) = audio_buffer s"
proof -
  let ?s1 = "(emit (if debug_mode s then [LogInfo ''Stopping manual recording...''] else []) s)
               \<lparr>stop_recording_event := True, is_recording := False\<rparr>"
  have "recording_worker t ?s1 ocs = ?s1"
    using assms by (intro recording_worker_exited) (simp_all add: emit_def)
  then show ?thesis using assms
    by (simp add: after_join_def signal_stop_and_wait_def join_thread_def emit_def)
qed

lemma process_collected_audio_ok:
  assumes "audio_buffer s \<noteq> []" and "sample_rate s \<noteq> 0"
  shows "fst (process_collected_audio s) = True \<and>
         audio_buffer (snd (process_collected_audio s)) = audio_buffer s \<and>
         utterances (trace (snd (process_collected_audio s)))
           = utterances (trace s)
             @ (if on_recording_stop s = None then [] else [concat (audio_buffer s)])"
  using assms
  by (simp add: process_collected_audio_def emit_def Let_def utterances_append
        utterances_run_callback_stop utterances_simps)

lemma scenario_recorder_facts:
  "is_recording scenario_recorder" "sample_rate scenario_recorder = 16000"
  "debug_mode scenario_recorder" "on_recording_stop scenario_recorder = Some Returns"
  "recording_thread scenario_recorder = Some 0" "threads scenario_recorder = [Reading]"
  "audio_buffer scenario_recorder = ten_frames" "\<not> stop_recording_event scenario_recorder"
proof -
  let ?s1 = "snd (start_recording (main_recorder\<lparr>debug_mode := True\<rparr>))"
  let ?a = "worker_step 0 Opened ?s1"
  have a: "is_recording ?a" "sample_rate ?a = 16000" "debug_mode ?a"
      "on_recording_stop ?a = Some Returns" "recording_thread ?a = Some 0"
      "threads ?a = [Reading]" "audio_buffer ?a = []" "\<not> stop_recording_event ?a"
      "stream ?a = Some 0"
    by (simp_all add: start_recording_def main_recorder_def emit_def run_callback_def
          worker_step_def loop_test_def)
  have "scenario_recorder = recording_worker 0 ?a (map Chunk ten_frames)"
    by (simp add: scenario_recorder_def)
  also have "\<dots> = ?a\<lparr>audio_buffer := audio_buffer ?a @ ten_frames\<rparr>"
    using a by (intro recording_worker_chunks) simp_all
  finally have eq: "scenario_recorder = ?a\<lparr>audio_buffer := audio_buffer ?a @ ten_frames\<rparr>" .
  show "is_recording scenario_recorder" "sample_rate scenario_recorder = 16000"
    "debug_mode scenario_recorder" "on_recording_stop scenario_recorder = Some Returns"
    "recording_thread scenario_recorder = Some 0" "threads scenario_recorder = [Reading]"
    "audio_buffer scenario_recorder = ten_frames" "\<not> stop_recording_event scenario_recorder"
    using a by (simp_all add: eq)
qed

lemma scenario_after_join:
  "audio_buffer (after_join scenario_recorder [Raised]) = ten_frames"
  using scenario_recorder_facts
  by (simp add: after_join_def signal_stop_and_wait_def join_thread_def emit_def
        worker_step_def worker_exit_def)

lemma perform_idle:
  assumes "\<not> is_recording s" and "c \<noteq> Start"
  shows "fst (perform c s) \<noteq> Some True \<and> \<not> is_recording (snd (perform c s)) \<and>
         utterances (trace (snd (perform c s))) = utterances (trace s)"
proof (cases c)
  case Start
  with assms show ?thesis by simp
next
  case (Stop ocs)
  with assms show ?thesis
    by (simp add: stop_recording_def emit_def utterances_append utterances_simps)
next
  case (Cancel ocs)
  with assms show ?thesis by (simp add: cancel_recording_def)
next
  case (Deliver t ocs)
  with assms recording_worker_fields [of t s ocs] show ?thesis by simp
qed

lemma run_calls_idle:
  "\<not> is_recording s \<Longrightarrow> Start \<notin> set cs \<Longrightarrow>
   Some True \<notin> set (fst (run_calls cs s)) \<and> \<not> is_recording (snd (run_calls cs s)) \<and>
   utterances (trace (snd (run_calls cs s))) = utterances (trace s)"
proof (induction cs arbitrary: s)
  case Nil
  then show ?case by simp
next
  case (Cons c cs)
  from Cons.prems have c: "c \<noteq> Start" and cs: "Start \<notin> set cs" by auto
  note p = perform_idle [OF Cons.prems(1) c]
  from p have idle: "\<not> is_recording (snd (perform c s))" by simp
  note ih = Cons.IH [OF idle cs]
  show ?case using p ih by auto
qed

lemma cancel_recording_recording:
  assumes "is_recording s"
  shows "audio_buffer (cancel_recording s ocs) = [] \<and> \<not> is_recording (cancel_recording s ocs) \<and>
         utterances (trace (cancel_recording s ocs)) = utterances (trace s)"
  using assms signal_stop_and_wait_fields [of ocs "emit [LogInfo ''Cancelling recording...''] s"]
  by (simp add: cancel_recording_def emit_def utterances_append utterances_simps)

lemma worker_step_stopping:
  assumes "stop_recording_event s" and "t < length (threads s)"
  shows "threads (worker_step t oc s) ! t = Exited \<and>
         length (audio_buffer (worker_step t oc s)) \<le> length (audio_buffer s) + 1"
  using assms
  by (simp add: worker_step_def loop_test_def worker_exit_def emit_def
        split: pc.split outcome.split)

lemma reads_returned_exited:
  "t < length (threads s) \<Longrightarrow> threads s ! t = Exited \<Longrightarrow> reads_returned t s ocs = 0"
  by (induction ocs) (simp_all add: worker_step_def)

lemma capturing_recorder_facts:
  "is_recording capturing_recorder" "sample_rate capturing_recorder = 16000"
  "\<not> debug_mode capturing_recorder" "on_recording_stop capturing_recorder = Some Returns"
  "on_recording_start capturing_recorder = Some Returns"
  "recording_thread capturing_recorder = Some 0" "threads capturing_recorder = [Reading]"
  "audio_buffer capturing_recorder = five_frames" "\<not> stop_recording_event capturing_recorder"
  "trace capturing_recorder = [ThreadStart 0, Invoke OnRecordingStart]"
proof -
  let ?s1 = "snd (start_recording main_recorder)"
  let ?a = "worker_step 0 Opened ?s1"
  have a: "is_recording ?a" "sample_rate ?a = 16000" "\<not> debug_mode ?a"
      "on_recording_stop ?a = Some Returns" "on_recording_start ?a = Some Returns"
      "recording_thread ?a = Some 0"
      "threads ?a = [Reading]" "audio_buffer ?a = []" "\<not> stop_recording_event ?a"
      "trace ?a = [ThreadStart 0, Invoke OnRecordingStart]" "stream ?a = Some 0"
    by (simp_all add: start_recording_def main_recorder_def emit_def run_callback_def
          worker_step_def loop_test_def)
  have "capturing_recorder = recording_worker 0 ?a (map Chunk five_frames)"
    by (simp add: capturing_recorder_def)
  also have "\<dots> = ?a\<lparr>audio_buffer := audio_buffer ?a @ five_frames\<rparr>"
    using a by (intro recording_worker_chunks) simp_all
  finally have eq: "capturing_recorder = ?a\<lparr>audio_buffer := audio_buffer ?a @ five_frames\<rparr>" .
  show "is_recording capturing_recorder" "sample_rate capturing_recorder = 16000"
    "\<not> debug_mode capturing_recorder" "on_recording_stop capturing_recorder = Some Returns"
    "on_recording_start capturing_recorder = Some Returns"
    "recording_thread capturing_recorder = Some 0" "threads capturing_recorder = [Reading]"
    "audio_buffer capturing_recorder = five_frames" "\<not> stop_recording_event capturing_recorder"
    "trace capturing_recorder = [ThreadStart 0, Invoke OnRecordingStart]"
    using a by (simp_all add: eq)
qed

lemma chunks_of_append: "chunks_of (xs @ ys) = chunks_of xs @ chunks_of ys"
  by (induction xs rule: chunks_of.induct) simp_all

lemma worker_step_buffer:
  "set (audio_buffer (worker_step t oc s)) \<subseteq> set (audio_buffer s) \<union> set (chunks_of [oc])"
  by (auto simp: worker_step_def loop_test_def worker_exit_def emit_def
        split: pc.split outcome.split if_splits)

lemma recording_worker_buffer:
  "set (audio_buffer (recording_worker t s ocs)) \<subseteq> set (audio_buffer s) \<union> set (chunks_of ocs)"
proof (induction ocs arbitrary: s)
  case Nil
  show ?case by simp
next
  case (Cons oc ocs)
  have "chunks_of (oc # ocs) = chunks_of [oc] @ chunks_of ocs"
    using chunks_of_append [of "[oc]" ocs] by simp
  then show ?case using Cons.IH [of "worker_step t oc s"] worker_step_buffer [of t oc s]
    by auto
qed

lemma signal_stop_and_wait_buffer:
  "set (audio_buffer (signal_stop_and_wait ocs s)) \<subseteq> set (audio_buffer s) \<union> set (chunks_of ocs)"
  using recording_worker_buffer [of _ "s\<lparr>stop_recording_event := True, is_recording := False\<rparr>" ocs]
  by (auto simp: signal_stop_and_wait_def join_thread_def split: option.split)

lemma after_join_buffer:
  "set (audio_buffer (after_join s ocs)) \<subseteq> set (audio_buffer s) \<union> set (chunks_of ocs)"
  using signal_stop_and_wait_buffer
    [of ocs "emit (if debug_mode s then [LogInfo ''Stopping manual recording...''] else []) s"]
  by (simp add: after_join_def emit_def)

lemma process_collected_audio_buffer:
  "audio_buffer (snd (process_collected_audio s)) = audio_buffer s"
  by (simp add: process_collected_audio_def emit_def Let_def)

lemma stop_recording_buffer:
  "audio_buffer (snd (stop_recording s ocs))
     = (if is_recording s then audio_buffer (after_join s ocs) else audio_buffer s)"
  by (simp add: stop_recording_def process_collected_audio_buffer emit_def)

lemma delivered_to_Cons:
  "delivered_to t (c # cs) = chunks_of (outcomes_for t c) @ delivered_to t cs"
  by (simp add: delivered_to_def chunks_of_append)

lemma worker_step_others:
  "i \<noteq> t \<Longrightarrow> threads (worker_step t oc s) ! i = threads s ! i"
  by (simp add: worker_step_def loop_test_def worker_exit_def emit_def
        split: pc.split outcome.split)

lemma recording_worker_others:
  "i \<noteq> t \<Longrightarrow> threads (recording_worker t s ocs) ! i = threads s ! i"
  by (induction ocs arbitrary: s) (simp_all add: worker_step_others)

lemma signal_stop_and_wait_others:
  "recording_thread s = Some t \<Longrightarrow> i \<noteq> t \<Longrightarrow>
   threads (signal_stop_and_wait ocs s) ! i = threads s ! i"
  by (simp add: signal_stop_and_wait_def join_thread_def recording_worker_others)

lemma process_collected_audio_threads:
  "threads (snd (process_collected_audio s)) = threads s \<and>
   recording_thread (snd (process_collected_audio s)) = recording_thread s"
  by (simp add: process_collected_audio_def emit_def Let_def)

text \<open>
  A recorder whose latest thread is \<open>t\<close> and whose other capture threads have all
  exited stays so under every call but a start, and its buffer gains only frames
  delivered to \<open>t\<close>.
\<close>

lemma perform_single_thread:
  assumes "c \<noteq> Start" and "recording_thread s = Some t" and "t < length (threads s)"
    and "\<forall>i<length (threads s). i \<noteq> t \<longrightarrow> threads s ! i = Exited"
  shows "recording_thread (snd (perform c s)) = Some t \<and>
         length (threads (snd (perform c s))) = length (threads s) \<and>
         (\<forall>i<length (threads s). i \<noteq> t \<longrightarrow> threads (snd (perform c s)) ! i = Exited) \<and>
         set (audio_buffer (snd (perform c s)))
           \<subseteq> set (audio_buffer s) \<union> set (chunks_of (outcomes_for t c))"
proof (cases c)
  case Start
  with assms show ?thesis by simp
next
  case (Stop ocs)
  show ?thesis
  proof (cases "is_recording s")
    case False
    with Stop assms show ?thesis by (simp add: stop_recording_def emit_def)
  next
    case True
    let ?e = "emit (if debug_mode s then [LogInfo ''Stopping manual recording...''] else []) s"
    have e: "recording_thread ?e = Some t" "threads ?e = threads s"
      using assms by (simp_all add: emit_def)
    have oth: "\<forall>i<length (threads s). i \<noteq> t \<longrightarrow> threads (after_join s ocs) ! i = Exited"
      using assms(4) signal_stop_and_wait_others [OF e(1), of _ ocs] e(2)
      by (simp add: after_join_def)
    show ?thesis
      using Stop True assms(2) oth after_join_fields [of s ocs] after_join_buffer [of s ocs]
        process_collected_audio_threads [of "after_join s ocs"]
      by (simp add: stop_recording_def process_collected_audio_buffer)
  qed
next
  case (Cancel ocs)
  show ?thesis
  proof (cases "is_recording s")
    case False
    with Cancel assms show ?thesis by (simp add: cancel_recording_def)
  next
    case True
    let ?e = "emit [LogInfo ''Cancelling recording...''] s"
    have e: "recording_thread ?e = Some t" "threads ?e = threads s"
      using assms by (simp_all add: emit_def)
    have oth: "\<forall>i<length (threads s). i \<noteq> t \<longrightarrow>
                 threads (signal_stop_and_wait ocs ?e) ! i = Exited"
      using assms(4) signal_stop_and_wait_others [OF e(1), of _ ocs] e(2) by simp
    show ?thesis
      using Cancel True oth e signal_stop_and_wait_fields [of ocs ?e]
      by (simp add: cancel_recording_def Let_def)
  qed
next
  case (Deliver u ocs)
  show ?thesis
  proof (cases "u = t")
    case True
    show ?thesis
      using Deliver True assms recording_worker_fields [of t s ocs]
        recording_worker_others [of _ t s ocs] recording_worker_buffer [of t s ocs]
      by simp
  next
    case False
    have "recording_worker u s ocs = s"
    proof (cases "u < length (threads s)")
      case True
      with False assms(4) show ?thesis by (simp add: recording_worker_exited)
    next
      case False
      then show ?thesis by (simp add: recording_worker_no_thread)
    qed
    with Deliver False assms show ?thesis by simp
  qed
qed

lemma run_calls_single_thread:
  "Start \<notin> set cs \<Longrightarrow> recording_thread s = Some t \<Longrightarrow> t < length (threads s) \<Longrightarrow>
   \<forall>i<length (threads s). i \<noteq> t \<longrightarrow> threads s ! i = Exited \<Longrightarrow>
   set (audio_buffer (snd (run_calls cs s))) \<subseteq> set (audio_buffer s) \<union> set (delivered_to t cs)"
proof (induction cs arbitrary: s)
  case Nil
  show ?case by simp
next
  case (Cons c cs)
  from Cons.prems have c: "c \<noteq> Start" and cs: "Start \<notin> set cs" by auto
  note p = perform_single_thread [OF c Cons.prems(2,3,4)]
  have ih: "set (audio_buffer (snd (run_calls cs (snd (perform c s)))))
              \<subseteq> set (audio_buffer (snd (perform c s))) \<union> set (delivered_to t cs)"
    using p Cons.prems(3) by (intro Cons.IH [OF cs]) simp_all
  show ?case using ih p by (auto simp: delivered_to_Cons)
qed

lemma stop_recording_utterances:
  assumes "is_recording s"
  shows "utterances (trace (snd (stop_recording s ocs)))
           = utterances (trace s)
             @ (if fst (stop_recording s ocs) \<and> on_recording_stop s \<noteq> None
                then [concat (audio_buffer (snd (stop_recording s ocs)))] else [])"
  using assms after_join_fields [of s ocs]
  by (simp add: stop_recording_def process_collected_audio_def emit_def Let_def
        utterances_append utterances_run_callback_stop utterances_simps)

lemma capturing_recorder_eq:
  "capturing_recorder =
     main_recorder\<lparr>is_recording := True, audio_buffer := five_frames,
       recording_thread := Some 0, stream := Some 0, threads := [Reading],
       trace := [ThreadStart 0, Invoke OnRecordingStart]\<rparr>"
  by (simp add: capturing_recorder_def start_recording_def main_recorder_def emit_def
        run_callback_def worker_step_def loop_test_def five_frames_def)

lemmas controller_defs =
  stop_recording_def after_join_def signal_stop_and_wait_def join_thread_def
  process_collected_audio_def start_recording_def cancel_recording_def run_callback_def
  emit_def worker_step_def loop_test_def worker_exit_def

lemma initialize_audio_out_of_range:
  assumes "device_index s = Some i" and "i \<ge> device_count"
  shows "\<exists>s'. initialize_audio True device_count s = Inr s' \<and> device_index s' = None"
  using assms by (simp add: initialize_audio_def emit_def Let_def)

section \<open>Rejected start\<close>

text \<open>
  C3. \<^verbatim>\<open>start_recording\<close> on a recorder that is recording returns False and changes
  nothing but the log, which gets the warning: the buffer, the stop event, the thread
  reference and the list of threads are those of before, and no thread is started.
\<close>

theorem start_recording_while_recording:
  assumes "is_recording s"
  shows "start_recording s = (False, s\<lparr>trace := trace s @ [LogWarning ''Already recording'']\<rparr>)"
  using assms by (simp add: start_recording_def emit_def)

theorem start_recording_while_recording_witness:
  "is_recording (snd (start_recording main_recorder)) \<and>
   start_recording (snd (start_recording main_recorder)) =
     (False,
      (snd (start_recording main_recorder))
        \<lparr>trace := [ThreadStart 0, Invoke OnRecordingStart, LogWarning ''Already recording'']\<rparr>)"
  using start_recording_while_recording [of "snd (start_recording main_recorder)"]
  by (simp add: start_recording_def main_recorder_def emit_def run_callback_def)

section \<open>A session without frames\<close>

text \<open>
  C4. When the buffer is empty after the join, \<^verbatim>\<open>stop_recording\<close> returns False with the
  warning "No audio data recorded" as its only effect after the join: the stop callback
  is not run and no waveform is handed over, and the recorder is no longer recording.
  False is a return value, not an exception.
\<close>

theorem stop_recording_zero_frames:
  assumes "is_recording s" and "audio_buffer (after_join s ocs) = []"
  shows "stop_recording s ocs =
           (False, emit [LogWarning ''No audio data recorded''] (after_join s ocs)) \<and>
         \<not> is_recording (snd (stop_recording s ocs)) \<and>
         utterances (trace (snd (stop_recording s ocs))) = utterances (trace s)"
  using assms after_join_fields [of s ocs]
  by (simp add: stop_recording_def process_collected_audio_def emit_def utterances_append)
     (simp add: utterances_def)

theorem stop_recording_zero_frames_witness:
  "is_recording (snd (start_recording main_recorder)) \<and>
   audio_buffer (after_join (snd (start_recording main_recorder)) [Opened]) = [] \<and>
   fst (stop_recording (snd (start_recording main_recorder)) [Opened]) = False \<and>
   \<not> is_recording (snd (stop_recording (snd (start_recording main_recorder)) [Opened])) \<and>
   utterances (trace (snd (stop_recording (snd (start_recording main_recorder)) [Opened]))) = []"
proof -
  have a: "is_recording (snd (start_recording main_recorder))"
    by (simp add: start_recording_def main_recorder_def emit_def run_callback_def)
  have b: "audio_buffer (after_join (snd (start_recording main_recorder)) [Opened]) = []"
    by (simp add: after_join_def signal_stop_and_wait_def join_thread_def worker_step_def
          loop_test_def worker_exit_def start_recording_def main_recorder_def emit_def
          run_callback_def)
  have c: "utterances (trace (snd (start_recording main_recorder))) = []"
    by (simp add: start_recording_def main_recorder_def emit_def run_callback_def utterances_def)
  note r = stop_recording_zero_frames [OF a b]
  have d: "fst (stop_recording (snd (start_recording main_recorder)) [Opened]) = False"
    using arg_cong [OF r [THEN conjunct1], of fst] by simp
  show ?thesis using a b c d r [THEN conjunct2] by simp
qed

section \<open>The waveform of a stopped session\<close>

text \<open>
  C2. When the buffer holds N frames of F samples each after the join (N at least 1, and
  a sample rate other than 0, which the division needs), \<^verbatim>\<open>stop_recording\<close> returns
  True, and what it adds to the trace after the join is the debug record with N * F
  samples and the duration N * F / sample_rate, then the stop callback run on the
  concatenation of the frames in buffer order; that waveform has N * F samples. Buffer
  order is capture order: a capture thread that is reading, with no stop asked and a
  stream stored in the attribute its reads go through, appends the frames the device
  delivers in the order it delivers them. The witness is the scenario of ten frames of
  1024 samples at 16000 Hz: 10240 samples, 0.64 s.
\<close>

theorem stop_recording_concatenates:
  assumes "is_recording s" and "sample_rate s \<noteq> 0"
    and "audio_buffer (after_join s ocs) = fs" and "fs \<noteq> []"
    and "\<forall>f\<in>set fs. length f = F"
  shows "fst (stop_recording s ocs) = True \<and>
         trace (snd (stop_recording s ocs)) =
           trace (after_join s ocs)
           @ (if debug_mode s
              then [LogRecordingComplete (length fs * F)
                      (real (length fs * F) / real_of_int (sample_rate s))]
              else [])
           @ run_callback (on_recording_stop s) (OnRecordingStop (concat fs))
               ''Error in recording stop callback'' \<and>
         length (concat fs) = length fs * F \<and>
         (t < length (threads r) \<and> threads r ! t = Reading \<and> \<not> stop_recording_event r \<and>
          stream r \<noteq> None \<longrightarrow>
            audio_buffer (recording_worker t r (map Chunk gs)) = audio_buffer r @ gs)"
proof -
  have capture:
    "t < length (threads r) \<and> threads r ! t = Reading \<and> \<not> stop_recording_event r \<and>
     stream r \<noteq> None \<longrightarrow>
       audio_buffer (recording_worker t r (map Chunk gs)) = audio_buffer r @ gs"
    by (simp add: recording_worker_chunks)
  have stop:
    "fst (stop_recording s ocs) = True \<and>
     trace (snd (stop_recording s ocs)) =
       trace (after_join s ocs)
       @ (if debug_mode s
          then [LogRecordingComplete (length fs * F)
                  (real (length fs * F) / real_of_int (sample_rate s))]
          else [])
       @ run_callback (on_recording_stop s) (OnRecordingStop (concat fs))
           ''Error in recording stop callback'' \<and>
     length (concat fs) = length fs * F"
    using assms after_join_fields [of s ocs] length_concat_uniform [of fs F]
    by (simp add: stop_recording_def process_collected_audio_def emit_def Let_def)
  show ?thesis using capture stop by blast
qed

theorem stop_recording_concatenates_witness:
  "is_recording scenario_recorder \<and> sample_rate scenario_recorder \<noteq> 0 \<and>
   audio_buffer (after_join scenario_recorder [Raised]) = ten_frames \<and> ten_frames \<noteq> [] \<and>
   map length ten_frames = replicate 10 1024 \<and>
   audio_buffer scenario_recorder = ten_frames \<and>
   fst (stop_recording scenario_recorder [Raised]) = True \<and>
   trace (snd (stop_recording scenario_recorder [Raised])) =
     trace (after_join scenario_recorder [Raised])
     @ [LogRecordingComplete 10240 (64 / 100), Invoke (OnRecordingStop (concat ten_frames))] \<and>
   length (concat ten_frames) = 10240"
proof -
  let ?s0 = "worker_step 0 Opened (snd (start_recording (main_recorder\<lparr>debug_mode := True\<rparr>)))"
  have h: "is_recording scenario_recorder" "sample_rate scenario_recorder \<noteq> 0"
      "audio_buffer (after_join scenario_recorder [Raised]) = ten_frames" "ten_frames \<noteq> []"
      "\<forall>f\<in>set ten_frames. length f = 1024"
    using scenario_recorder_facts scenario_after_join by (simp_all add: ten_frames_def)
  have l: "length ten_frames = 10" "map length ten_frames = replicate 10 1024"
    by (simp_all add: ten_frames_def)
  have c: "0 < length (threads ?s0)" "threads ?s0 ! 0 = Reading" "\<not> stop_recording_event ?s0"
      "stream ?s0 \<noteq> None"
      "audio_buffer ?s0 = []" "recording_worker 0 ?s0 (map Chunk ten_frames) = scenario_recorder"
    by (simp_all add: scenario_recorder_def start_recording_def main_recorder_def emit_def
          run_callback_def worker_step_def loop_test_def)
  note r = stop_recording_concatenates [OF h, where t = 0 and r = ?s0 and gs = ten_frames]
  have captured: "audio_buffer scenario_recorder = ten_frames"
    using r c by simp
  have stopped:
    "fst (stop_recording scenario_recorder [Raised]) = True \<and>
     trace (snd (stop_recording scenario_recorder [Raised])) =
       trace (after_join scenario_recorder [Raised])
       @ [LogRecordingComplete 10240 (64 / 100), Invoke (OnRecordingStop (concat ten_frames))] \<and>
     length (concat ten_frames) = 10240"
    using l scenario_recorder_facts r by (simp add: run_callback_def)
  show ?thesis using h l captured stopped by simp
qed

section \<open>A device fault in the middle of a session\<close>

text \<open>
  C5. A recorder that is not recording is started; its capture thread opens the stream,
  appends the frames \<open>fs\<close> (at least one) and then gets an exception from the read.
  The thread has exited with exactly \<open>fs\<close> in the buffer, and the following
  \<^verbatim>\<open>stop_recording\<close> returns True, keeps the buffer, and hands the concatenation of
  \<open>fs\<close> to the stop callback when one is set: nothing but log records tells of
  the fault.
\<close>

theorem fatal_read_fault_keeps_frames:
  assumes "\<not> is_recording s" and "sample_rate s \<noteq> 0" and "fs \<noteq> []"
    and "s' = recording_worker (length (threads s)) (snd (start_recording s))
                (Opened # map Chunk fs @ Raised # rest)"
  shows "threads s' ! length (threads s) = Exited \<and>
         audio_buffer s' = fs \<and>
         fst (stop_recording s' ocs) = True \<and>
         audio_buffer (snd (stop_recording s' ocs)) = fs \<and>
         utterances (trace (snd (stop_recording s' ocs)))
           = utterances (trace s) @ (if on_recording_stop s = None then [] else [concat fs])"
proof -
  let ?t = "length (threads s)"
  let ?s1 = "snd (start_recording s)"
  note st = start_recording_idle [OF assms(1)]
  have t1: "?t < length (threads ?s1)" "threads ?s1 ! ?t = Opening" "\<not> stop_recording_event ?s1"
    using st by simp_all
  note cap = capture_until_fault [OF t1, of fs rest]
  note wf = recording_worker_fields [of ?t ?s1 "Opened # map Chunk fs @ Raised # rest"]
  have s': "threads s' ! ?t = Exited" "audio_buffer s' = fs" "is_recording s'"
      "recording_thread s' = Some ?t" "?t < length (threads s')" "sample_rate s' = sample_rate s"
      "on_recording_stop s' = on_recording_stop s" "utterances (trace s') = utterances (trace s)"
    using cap wf st assms(4) by simp_all
  have aj: "audio_buffer (after_join s' ocs) = fs"
    using after_join_exited [of s' ?t ocs] s' by simp
  note ajf = after_join_fields [of s' ocs]
  have pre: "audio_buffer (after_join s' ocs) \<noteq> []" "sample_rate (after_join s' ocs) \<noteq> 0"
    using aj ajf s' assms by simp_all
  note pr = process_collected_audio_ok [OF pre]
  have "stop_recording s' ocs = process_collected_audio (after_join s' ocs)"
    using s' by (simp add: stop_recording_def)
  then show ?thesis using pr aj ajf s' by simp
qed

theorem fatal_read_fault_keeps_frames_witness:
  "\<not> is_recording main_recorder \<and> sample_rate main_recorder \<noteq> 0 \<and> five_frames \<noteq> [] \<and>
   fst (stop_recording
          (recording_worker 0 (snd (start_recording main_recorder))
             (Opened # map Chunk five_frames @ [Raised])) []) = True \<and>
   utterances (trace (snd (stop_recording
          (recording_worker 0 (snd (start_recording main_recorder))
             (Opened # map Chunk five_frames @ [Raised])) [])))
     = [[1, 2, 3, 4, 5, 6, 7, 8, 9, 10]]"
proof -
  have h: "\<not> is_recording main_recorder" "sample_rate main_recorder \<noteq> 0" "five_frames \<noteq> []"
    by (simp_all add: main_recorder_def five_frames_def)
  have m: "length (threads main_recorder) = 0" "utterances (trace main_recorder) = []"
      "on_recording_stop main_recorder \<noteq> None" "concat five_frames = [1, 2, 3, 4, 5, 6, 7, 8, 9, 10]"
    by (simp_all add: main_recorder_def five_frames_def utterances_def)
  show ?thesis
    using h m fatal_read_fault_keeps_frames [OF h refl, of "[]" "[]"] by simp
qed

section \<open>Cancelling\<close>

text \<open>
  C1. \<^verbatim>\<open>cancel_recording\<close> on a recorder that is recording leaves the buffer empty and the
  recorder not recording, and runs no stop callback. From then until the next
  \<^verbatim>\<open>start_recording\<close>, whatever is called (stop, cancel, or the device delivering late
  outcomes to a capture thread), no call returns True and no waveform is handed over:
  the cancelled session yields no completed utterance.
\<close>

theorem cancel_recording_discards:
  assumes "is_recording s" and "Start \<notin> set cs"
  shows "audio_buffer (cancel_recording s ocs) = [] \<and>
         \<not> is_recording (cancel_recording s ocs) \<and>
         utterances (trace (cancel_recording s ocs)) = utterances (trace s) \<and>
         Some True \<notin> set (fst (run_calls (Cancel ocs # cs) s)) \<and>
         utterances (trace (snd (run_calls (Cancel ocs # cs) s))) = utterances (trace s)"
proof -
  note c = cancel_recording_recording [OF assms(1), of ocs]
  from c have idle: "\<not> is_recording (cancel_recording s ocs)" by simp
  note r = run_calls_idle [OF idle assms(2)]
  show ?thesis using c r by simp
qed

theorem cancel_recording_discards_witness:
  "is_recording capturing_recorder \<and>
   Start \<notin> set [Stop [], Deliver 0 [Chunk [13, 14]], Cancel [], Stop [Chunk [15]]] \<and>
   audio_buffer capturing_recorder = five_frames \<and>
   audio_buffer (cancel_recording capturing_recorder [Chunk [11, 12]]) = [] \<and>
   \<not> is_recording (cancel_recording capturing_recorder [Chunk [11, 12]]) \<and>
   Some True \<notin> set (fst (run_calls
       (Cancel [Chunk [11, 12]] # [Stop [], Deliver 0 [Chunk [13, 14]], Cancel [], Stop [Chunk [15]]])
       capturing_recorder)) \<and>
   utterances (trace (snd (run_calls
       (Cancel [Chunk [11, 12]] # [Stop [], Deliver 0 [Chunk [13, 14]], Cancel [], Stop [Chunk [15]]])
       capturing_recorder))) = []"
proof -
  have h: "is_recording capturing_recorder"
      "Start \<notin> set [Stop [], Deliver 0 [Chunk [13, 14]], Cancel [], Stop [Chunk [15]]]"
    using capturing_recorder_facts by simp_all
  have u: "utterances (trace capturing_recorder) = []"
    using capturing_recorder_facts by (simp add: utterances_simps)
  show ?thesis
    using h u capturing_recorder_facts(8) cancel_recording_discards [OF h, of "[Chunk [11, 12]]"]
    by simp
qed

section \<open>Leaving the capture loop\<close>

text \<open>
  C7, as the code has it. While the stop event is set, a capture thread ends with the
  first call that returns to it: at most one \<^verbatim>\<open>stream.read\<close> returns (the one in flight
  when the event was set), the buffer grows by at most that one frame, and later
  outcomes of the device change nothing.
\<close>

theorem stop_event_ends_capture_loop:
  assumes "stop_recording_event s" and "t < length (threads s)"
  shows "reads_returned t s ocs \<le> 1 \<and>
         threads (recording_worker t s (oc # ocs)) ! t = Exited \<and>
         recording_worker t s (oc # ocs) = worker_step t oc s \<and>
         length (audio_buffer (recording_worker t s (oc # ocs))) \<le> length (audio_buffer s) + 1"
proof -
  have step: "\<And>x. threads (worker_step t x s) ! t = Exited \<and> t < length (threads (worker_step t x s))
            \<and> length (audio_buffer (worker_step t x s)) \<le> length (audio_buffer s) + 1"
    using worker_step_stopping [OF assms] worker_step_fields [of t _ s] assms by simp
  have rest: "recording_worker t (worker_step t oc s) ocs = worker_step t oc s"
    using step [of oc] by (simp add: recording_worker_exited)
  have reads: "reads_returned t s ocs \<le> 1"
  proof (cases ocs)
    case Nil
    then show ?thesis by simp
  next
    case (Cons x xs)
    then show ?thesis using step [of x] by (simp add: reads_returned_exited)
  qed
  show ?thesis using step [of oc] rest reads by simp
qed

theorem stop_event_ends_capture_loop_witness:
  "stop_recording_event (capturing_recorder\<lparr>stop_recording_event := True\<rparr>) \<and>
   0 < length (threads (capturing_recorder\<lparr>stop_recording_event := True\<rparr>)) \<and>
   reads_returned 0 (capturing_recorder\<lparr>stop_recording_event := True\<rparr>)
     [Chunk [11, 12], Chunk [13, 14], Chunk [15]] \<le> 1 \<and>
   threads (recording_worker 0 (capturing_recorder\<lparr>stop_recording_event := True\<rparr>)
     [Chunk [11, 12], Chunk [13, 14], Chunk [15]]) ! 0 = Exited \<and>
   audio_buffer (recording_worker 0 (capturing_recorder\<lparr>stop_recording_event := True\<rparr>)
     [Chunk [11, 12], Chunk [13, 14], Chunk [15]]) = five_frames @ [[11, 12]]"
proof -
  let ?s = "capturing_recorder\<lparr>stop_recording_event := True\<rparr>"
  have h: "stop_recording_event ?s" "0 < length (threads ?s)"
    using capturing_recorder_facts by simp_all
  have b: "audio_buffer (worker_step 0 (Chunk [11, 12]) ?s) = five_frames @ [[11, 12]]"
    using capturing_recorder_facts by (simp add: worker_step_def loop_test_def worker_exit_def)
  note r1 = stop_event_ends_capture_loop
      [OF h, where ocs = "[Chunk [11, 12], Chunk [13, 14], Chunk [15]]" and oc = Raised,
       THEN conjunct1]
  note r2 = stop_event_ends_capture_loop
      [OF h, where ocs = "[Chunk [13, 14], Chunk [15]]" and oc = "Chunk [11, 12]",
       THEN conjunct2]
  note exited = r2 [THEN conjunct1]
  note same = r2 [THEN conjunct2, THEN conjunct1]
  have buf: "audio_buffer (recording_worker 0 ?s [Chunk [11, 12], Chunk [13, 14], Chunk [15]])
               = five_frames @ [[11, 12]]"
    using b by (simp only: same)
  show ?thesis
    using h r1 exited buf by (intro conjI)
qed

text \<open>
  The event does not always stay set. When the join of \<^verbatim>\<open>stop_recording\<close> times out
  with the thread still blocked in its read, the next \<^verbatim>\<open>start_recording\<close> clears the
  event; the old thread then finds it clear after its read and reads on: here three
  reads return to it after the stop and it is still reading.
\<close>

theorem restart_clears_stop_event:
  "stop_recording_event (snd (stop_recording capturing_recorder [])) \<and>
   threads (snd (stop_recording capturing_recorder [])) ! 0 = Reading \<and>
   \<not> stop_recording_event (snd (start_recording (snd (stop_recording capturing_recorder [])))) \<and>
   reads_returned 0 (snd (start_recording (snd (stop_recording capturing_recorder []))))
     [Chunk [11, 12], Chunk [13, 14], Chunk [15]] = 3 \<and>
   threads (recording_worker 0 (snd (start_recording (snd (stop_recording capturing_recorder []))))
     [Chunk [11, 12], Chunk [13, 14], Chunk [15]]) ! 0 = Reading"
  by (simp add: capturing_recorder_eq main_recorder_def controller_defs five_frames_def)

section \<open>The buffer between sessions\<close>

text \<open>
  C10, as the code has it. \<^verbatim>\<open>stop_recording\<close> leaves the buffer as the join left it, and
  the waveform it hands over is the concatenation of that buffer. The frames then stay
  until the next \<^verbatim>\<open>start_recording\<close>: a \<^verbatim>\<open>cancel_recording\<close> or a second
  \<^verbatim>\<open>stop_recording\<close> before it finds the recorder not recording, returns at once and
  clears nothing. The next \<^verbatim>\<open>start_recording\<close> empties the buffer and only then starts
  the new capture thread, which has not opened the device yet. When every earlier
  capture thread has exited by then, the buffer holds, whatever follows short of
  another start, only frames the device delivered to the new thread; so a waveform
  handed over by that session's stop is made of frames of its own capture thread only.
\<close>

theorem stop_keeps_buffer_start_clears:
  assumes "is_recording s" and "s3 = snd (stop_recording s ocs)" and "Start \<notin> set cs"
  shows "audio_buffer s3 = audio_buffer (after_join s ocs) \<and>
         utterances (trace s3)
           = utterances (trace s)
             @ (if fst (stop_recording s ocs) \<and> on_recording_stop s \<noteq> None
                then [concat (audio_buffer s3)] else []) \<and>
         cancel_recording s3 ocs' = s3 \<and>
         audio_buffer (snd (stop_recording s3 ocs')) = audio_buffer s3 \<and>
         audio_buffer (snd (start_recording s3)) = [] \<and>
         threads (snd (start_recording s3)) = threads s3 @ [Opening] \<and>
         recording_thread (snd (start_recording s3)) = Some (length (threads s3)) \<and>
         (list_all (\<lambda>p. p = Exited) (threads s3) \<longrightarrow>
            set (audio_buffer (snd (run_calls cs (snd (start_recording s3)))))
              \<subseteq> set (delivered_to (length (threads s3)) cs))"
proof -
  have idle: "\<not> is_recording s3"
    using assms(1,2) after_join_fields [of s ocs]
    by (simp add: stop_recording_def process_collected_audio_def emit_def Let_def)
  note st = start_recording_idle [OF idle]
  have a: "audio_buffer s3 = audio_buffer (after_join s ocs)"
    using assms(1,2) by (simp add: stop_recording_buffer)
  have u: "utterances (trace s3)
           = utterances (trace s)
             @ (if fst (stop_recording s ocs) \<and> on_recording_stop s \<noteq> None
                then [concat (audio_buffer s3)] else [])"
    using stop_recording_utterances [OF assms(1), of ocs] assms(2) by simp
  have b: "cancel_recording s3 ocs' = s3" using idle by (simp add: cancel_recording_def)
  have b': "audio_buffer (snd (stop_recording s3 ocs')) = audio_buffer s3"
    using idle by (simp add: stop_recording_buffer)
  have d: "set (audio_buffer (snd (run_calls cs (snd (start_recording s3)))))
             \<subseteq> set (delivered_to (length (threads s3)) cs)"
    if ex: "list_all (\<lambda>p. p = Exited) (threads s3)"
  proof -
    let ?s4 = "snd (start_recording s3)"
    have t: "recording_thread ?s4 = Some (length (threads s3))"
        "length (threads s3) < length (threads ?s4)"
      using st by simp_all
    have others: "\<forall>i<length (threads ?s4). i \<noteq> length (threads s3) \<longrightarrow> threads ?s4 ! i = Exited"
      using st ex by (auto simp: list_all_length nth_append)
    show ?thesis
      using run_calls_single_thread [OF assms(3) t others] st by simp
  qed
  show ?thesis using a u b b' st d by simp
qed

theorem stop_keeps_buffer_start_clears_witness:
  "is_recording capturing_recorder \<and>
   Start \<notin> set [Deliver 0 [Chunk [30]], Deliver 1 [Opened, Chunk [20, 21]], Stop [Raised]] \<and>
   list_all (\<lambda>p. p = Exited) (threads (snd (stop_recording capturing_recorder [Chunk [11, 12]]))) \<and>
   audio_buffer (snd (stop_recording capturing_recorder [Chunk [11, 12]]))
     = five_frames @ [[11, 12]] \<and>
   utterances (trace (snd (stop_recording capturing_recorder [Chunk [11, 12]])))
     = [concat (five_frames @ [[11, 12]])] \<and>
   audio_buffer (snd (start_recording (snd (stop_recording capturing_recorder [Chunk [11, 12]]))))
     = [] \<and>
   audio_buffer (snd (run_calls
      [Deliver 0 [Chunk [30]], Deliver 1 [Opened, Chunk [20, 21]], Stop [Raised]]
      (snd (start_recording (snd (stop_recording capturing_recorder [Chunk [11, 12]]))))))
     = [[20, 21]] \<and>
   delivered_to 1 [Deliver 0 [Chunk [30]], Deliver 1 [Opened, Chunk [20, 21]], Stop [Raised]]
     = [[20, 21]]"
proof -
  have h: "is_recording capturing_recorder"
      "Start \<notin> set [Deliver 0 [Chunk [30]], Deliver 1 [Opened, Chunk [20, 21]], Stop [Raised]]"
    using capturing_recorder_facts by simp_all
  have ex: "list_all (\<lambda>p. p = Exited)
              (threads (snd (stop_recording capturing_recorder [Chunk [11, 12]])))"
    by (simp add: capturing_recorder_eq main_recorder_def controller_defs five_frames_def)
  have aj: "audio_buffer (after_join capturing_recorder [Chunk [11, 12]]) = five_frames @ [[11, 12]]"
    by (simp add: capturing_recorder_eq main_recorder_def controller_defs)
  have ok: "fst (stop_recording capturing_recorder [Chunk [11, 12]])"
    by (simp add: capturing_recorder_eq main_recorder_def controller_defs five_frames_def)
  have u: "utterances (trace capturing_recorder) = []"
    "on_recording_stop capturing_recorder \<noteq> None"
    using capturing_recorder_facts by (simp_all add: utterances_simps)
  have run: "audio_buffer (snd (run_calls
      [Deliver 0 [Chunk [30]], Deliver 1 [Opened, Chunk [20, 21]], Stop [Raised]]
      (snd (start_recording (snd (stop_recording capturing_recorder [Chunk [11, 12]]))))))
     = [[20, 21]]"
    by (simp add: capturing_recorder_eq main_recorder_def controller_defs five_frames_def)
  have dl: "delivered_to 1
      [Deliver 0 [Chunk [30]], Deliver 1 [Opened, Chunk [20, 21]], Stop [Raised]] = [[20, 21]]"
    by (simp add: delivered_to_def)
  note r = stop_keeps_buffer_start_clears [OF h(1) refl h(2), of "[Chunk [11, 12]]" "[]"]
  show ?thesis using h ex aj ok u run dl r by simp
qed

text \<open>
  So \<^verbatim>\<open>cancel_recording\<close> is not what clears the frames of a stopped session: after a
  stop that returned True in the middle of the self-test session, a cancel leaves all
  five frames in the buffer.
\<close>

theorem cancel_after_stop_clears_nothing:
  "fst (stop_recording capturing_recorder [Raised]) = True \<and>
   audio_buffer (snd (stop_recording capturing_recorder [Raised])) = five_frames \<and>
   audio_buffer (cancel_recording (snd (stop_recording capturing_recorder [Raised])) [])
     = five_frames \<and>
   five_frames \<noteq> []"
  by (simp add: capturing_recorder_eq main_recorder_def controller_defs five_frames_def)

section \<open>How the callbacks are run\<close>

text \<open>
  C6, as the code has it. The manual recorder calls its callbacks on the calling thread:
  \<^verbatim>\<open>start_recording\<close> calls the start callback after it has started the capture thread,
  \<^verbatim>\<open>stop_recording\<close> calls the stop callback with the waveform after the join, and each
  logs an exception of the callback. The voice-activated recorder calls neither: it
  starts a thread for the start callback when voice begins a recording, and a thread
  for the stop callback, with the waveform, when it ends one.
\<close>

theorem callback_dispatch:
  assumes "\<not> is_recording s" and "is_recording r"
    and "audio_buffer (after_join r ocs) \<noteq> []" and "sample_rate r \<noteq> 0"
    and "\<not> v_is_recording v"
    and "v_is_recording w" and "v_audio_data w \<noteq> []" and "v_sample_rate w \<noteq> 0"
  shows "trace (snd (start_recording s)) =
           trace s
           @ (if debug_mode s then [LogInfo ''Starting manual recording...''] else [])
           @ [ThreadStart (length (threads s))]
           @ (case on_recording_start s of
                None \<Rightarrow> []
              | Some Returns \<Rightarrow> [Invoke OnRecordingStart]
              | Some Raises \<Rightarrow>
                  [Invoke OnRecordingStart, LogError ''Error in recording start callback'']) \<and>
         trace (snd (stop_recording r ocs)) =
           trace (after_join r ocs)
           @ (if debug_mode r
              then [LogRecordingComplete (length (concat (audio_buffer (after_join r ocs))))
                      (real (length (concat (audio_buffer (after_join r ocs))))
                         / real_of_int (sample_rate r))]
              else [])
           @ (case on_recording_stop r of
                None \<Rightarrow> []
              | Some Returns \<Rightarrow> [Invoke (OnRecordingStop (concat (audio_buffer (after_join r ocs))))]
              | Some Raises \<Rightarrow>
                  [Invoke (OnRecordingStop (concat (audio_buffer (after_join r ocs)))),
                   LogError ''Error in recording stop callback'']) \<and>
         v_trace (handle_voice_detected chunk v) =
           v_trace v
           @ [LogInfo ''Voice detected - starting recording'']
           @ (case v_on_recording_start v of
                None \<Rightarrow> []
              | Some cb \<Rightarrow> [Dispatch OnRecordingStart]) \<and>
         v_trace (snd (stop_recording_internal w)) =
           v_trace w
           @ [LogRecordingComplete (length (concat (v_audio_data w)))
                (real (length (concat (v_audio_data w))) / real_of_int (v_sample_rate w))]
           @ (case v_on_recording_stop w of
                None \<Rightarrow> []
              | Some cb \<Rightarrow> [Dispatch (OnRecordingStop (concat (v_audio_data w)))])"
proof -
  have m1: "trace (snd (start_recording s)) =
           trace s
           @ (if debug_mode s then [LogInfo ''Starting manual recording...''] else [])
           @ [ThreadStart (length (threads s))]
           @ (case on_recording_start s of
                None \<Rightarrow> []
              | Some Returns \<Rightarrow> [Invoke OnRecordingStart]
              | Some Raises \<Rightarrow>
                  [Invoke OnRecordingStart, LogError ''Error in recording start callback''])"
    using assms(1) by (simp add: start_recording_def emit_def Let_def run_callback_def)
  have m2: "trace (snd (stop_recording r ocs)) =
           trace (after_join r ocs)
           @ (if debug_mode r
              then [LogRecordingComplete (length (concat (audio_buffer (after_join r ocs))))
                      (real (length (concat (audio_buffer (after_join r ocs))))
                         / real_of_int (sample_rate r))]
              else [])
           @ (case on_recording_stop r of
                None \<Rightarrow> []
              | Some Returns \<Rightarrow> [Invoke (OnRecordingStop (concat (audio_buffer (after_join r ocs))))]
              | Some Raises \<Rightarrow>
                  [Invoke (OnRecordingStop (concat (audio_buffer (after_join r ocs)))),
                   LogError ''Error in recording stop callback''])"
    using assms(2,3,4) after_join_fields [of r ocs]
    by (simp add: stop_recording_def process_collected_audio_def emit_def Let_def run_callback_def)
  have v1: "v_trace (handle_voice_detected chunk v) =
           v_trace v
           @ [LogInfo ''Voice detected - starting recording'']
           @ (case v_on_recording_start v of
                None \<Rightarrow> []
              | Some cb \<Rightarrow> [Dispatch OnRecordingStart])"
    using assms(5) by (simp add: handle_voice_detected_def v_emit_def Let_def)
  have v2: "v_trace (snd (stop_recording_internal w)) =
           v_trace w
           @ [LogRecordingComplete (length (concat (v_audio_data w)))
                (real (length (concat (v_audio_data w))) / real_of_int (v_sample_rate w))]
           @ (case v_on_recording_stop w of
                None \<Rightarrow> []
              | Some cb \<Rightarrow> [Dispatch (OnRecordingStop (concat (v_audio_data w)))])"
    using assms(6,7,8) by (simp add: stop_recording_internal_def v_emit_def Let_def)
  show ?thesis using m1 m2 v1 v2 by (intro conjI)
qed

theorem callback_dispatch_witness:
  "\<not> is_recording main_recorder \<and> is_recording capturing_recorder \<and>
   audio_buffer (after_join capturing_recorder [Raised]) \<noteq> [] \<and>
   sample_rate capturing_recorder \<noteq> 0 \<and>
   \<not> v_is_recording vad_main_recorder \<and>
   v_is_recording (handle_voice_detected [1, 2] vad_main_recorder) \<and>
   v_audio_data (handle_voice_detected [1, 2] vad_main_recorder) \<noteq> [] \<and>
   v_sample_rate (handle_voice_detected [1, 2] vad_main_recorder) \<noteq> 0 \<and>
   trace (snd (start_recording main_recorder)) = [ThreadStart 0, Invoke OnRecordingStart] \<and>
   trace (snd (stop_recording capturing_recorder [Raised])) =
     [ThreadStart 0, Invoke OnRecordingStart, Invoke (OnRecordingStop (concat five_frames))] \<and>
   v_trace (handle_voice_detected [1, 2] vad_main_recorder) =
     [LogInfo ''PyAudio initialized successfully'', LogInfo ''Voice detected - starting recording'',
      Dispatch OnRecordingStart] \<and>
   v_trace (snd (stop_recording_internal (handle_voice_detected [1, 2] vad_main_recorder))) =
     [LogInfo ''PyAudio initialized successfully'', LogInfo ''Voice detected - starting recording'',
      Dispatch OnRecordingStart, LogRecordingComplete 2 (2 / 16000),
      Dispatch (OnRecordingStop [1, 2])]"
proof -
  have h: "\<not> is_recording main_recorder" "is_recording capturing_recorder"
      "audio_buffer (after_join capturing_recorder [Raised]) \<noteq> []"
      "sample_rate capturing_recorder \<noteq> 0"
      "\<not> v_is_recording vad_main_recorder"
      "v_is_recording (handle_voice_detected [1, 2] vad_main_recorder)"
      "v_audio_data (handle_voice_detected [1, 2] vad_main_recorder) \<noteq> []"
      "v_sample_rate (handle_voice_detected [1, 2] vad_main_recorder) \<noteq> 0"
    by (simp_all add: capturing_recorder_eq main_recorder_def controller_defs five_frames_def
          vad_main_recorder_def handle_voice_detected_def v_emit_def)
  have e: "trace main_recorder = []" "debug_mode main_recorder = False"
      "on_recording_start main_recorder = Some Returns" "threads main_recorder = []"
      "trace (after_join capturing_recorder [Raised]) = [ThreadStart 0, Invoke OnRecordingStart]"
      "audio_buffer (after_join capturing_recorder [Raised]) = five_frames"
      "debug_mode capturing_recorder = False" "on_recording_stop capturing_recorder = Some Returns"
      "v_trace vad_main_recorder = [LogInfo ''PyAudio initialized successfully'']"
      "v_on_recording_start vad_main_recorder = Some Returns"
      "v_on_recording_stop (handle_voice_detected [1, 2] vad_main_recorder) = Some Returns"
      "v_audio_data (handle_voice_detected [1, 2] vad_main_recorder) = [[1, 2]]"
      "v_sample_rate (handle_voice_detected [1, 2] vad_main_recorder) = 16000"
    by (simp_all add: capturing_recorder_eq main_recorder_def controller_defs
          vad_main_recorder_def handle_voice_detected_def v_emit_def)
  note r = callback_dispatch [OF h, of "[1, 2]"]
  show ?thesis using h r by (simp add: e)
qed

text \<open>
  So the callbacks are not always run on threads of their own: in the self-test of the
  manual recorder both are plain calls, and no thread is started for either.
\<close>

theorem manual_callbacks_are_called_inline:
  "Invoke OnRecordingStart \<in> set (trace (snd (start_recording main_recorder))) \<and>
   Dispatch OnRecordingStart \<notin> set (trace (snd (start_recording main_recorder))) \<and>
   Invoke (OnRecordingStop (concat five_frames))
     \<in> set (trace (snd (stop_recording capturing_recorder [Raised]))) \<and>
   Dispatch (OnRecordingStop (concat five_frames))
     \<notin> set (trace (snd (stop_recording capturing_recorder [Raised])))"
  by (simp add: capturing_recorder_eq main_recorder_def controller_defs five_frames_def)

section \<open>The device index\<close>

text \<open>
  C9 at a negative index. \<^verbatim>\<open>_initialize_audio\<close> tests \<^verbatim>\<open>device_index >= device_count\<close>
  only. With the index -1 on a platform with two devices the constructor of either
  recorder succeeds, logs no warning and keeps -1 as the device index.
\<close>

theorem negative_device_index_is_kept:
  "ManualAudioRecorder (main_config\<lparr>cfg_device_index := Some (- 1)\<rparr>) False True 2
     = Inr (main_recorder\<lparr>device_index := Some (- 1),
              on_recording_start := None, on_recording_stop := None\<rparr>) \<and>
   vad_initialize_audio True 2
       (vad_main_recorder\<lparr>v_device_index := Some (- 1), v_pyaudio := False, v_trace := []\<rparr>)
     = Inr (vad_main_recorder\<lparr>v_device_index := Some (- 1)\<rparr>)"
  by (simp add: ManualAudioRecorder_def initialize_audio_def vad_initialize_audio_def
        main_config_def main_recorder_def vad_main_recorder_def emit_def v_emit_def)

end
